theory Spec2Isabelle
  imports Main
begin

section \<open>The standalone driver for LLD (lld-standalone.cpp)\<close>

text \<open>
  The driver finds the linker \<^verbatim>\<open>ld.lld\<close> on the search path, derives a target triple
  from its own invocation name (or takes the host's default), puts the NetBSD
  customization flags in front of the caller's arguments, drops a leading
  \<^verbatim>\<open>-flavor\<close> pair, runs the linker and returns its exit code.

  The embedding follows \<^verbatim>\<open>src/lld-standalone.cpp\<close> function by function. The global
  \<^verbatim>\<open>targetTriple\<close> is passed explicitly, a \<^verbatim>\<open>std::vector\<close> that is pushed to is a list
  that is appended to, and what the driver writes or runs is recorded as a list of
  events in the order of the calls.
\<close>

subsection \<open>llvm::Triple, as far as the driver reads it\<close>

text \<open>
  The enumerations of \<^verbatim>\<open>llvm/ADT/Triple.h\<close> are not part of the driver's source. Each
  is modelled with the enumerators the driver names (those of the disabled
  \<^verbatim>\<open>#if 0\<close> block included, since they fall to \<^verbatim>\<open>default\<close>), a few common ones, and
  one constructor standing for every remaining enumerator.
\<close>

datatype ArchType =
    UnknownArch | arm | armeb | aarch64 | aarch64_be | mips64 | mips64el
  | ppc | ppc64 | sparc | sparcv9 | thumb | thumbeb | x86 | x86_64
  | OtherArch nat

datatype OSType = UnknownOS | FreeBSD | Linux | NetBSD | OpenBSD | OtherOS nat

datatype EnvironmentType =
    UnknownEnvironment | GNU | GNUEABI | GNUEABIHF | EABI | EABIHF
  | OtherEnvironment nat

text \<open>
  A triple holds the string it was built from (\<^verbatim>\<open>str()\<close> returns it) and the parsed
  fields \<^verbatim>\<open>getArch()\<close>, \<^verbatim>\<open>getOS()\<close> and \<^verbatim>\<open>getEnvironment()\<close>. Vendor, sub-architecture
  and object format are never read by the driver and are left out.
\<close>

record Triple =
  Data :: string
  Arch :: ArchType
  OS :: OSType
  Environment :: EnvironmentType

definition isOSNetBSD :: "Triple \<Rightarrow> bool" where
  "isOSNetBSD T = (OS T = NetBSD)"

subsection \<open>The platform customization table\<close>

text \<open>
  \<^verbatim>\<open>prependNetBSDCustomization\<close> (lines 87 to 153): three unconditional flags, the
  image base for the 64-bit ARM architectures, one library search path chosen by
  architecture (and by environment for 32-bit ARM), and \<^verbatim>\<open>-L=/usr/lib\<close>.
  The two \<^verbatim>\<open>switch\<close> statements are the two \<^verbatim>\<open>case\<close> expressions.
\<close>

definition prependNetBSDCustomization :: "Triple \<Rightarrow> string list \<Rightarrow> string list" where
  "prependNetBSDCustomization targetTriple args =
    (let args = args @ [''--no-rosegment''];
         args = args @ [''--disable-new-dtags''];
         args = args @ [''-znognustack''];
         args = (case Arch targetTriple of
                   aarch64 \<Rightarrow> args @ [''--image-base=0x200100000'']
                 | aarch64_be \<Rightarrow> args @ [''--image-base=0x200100000'']
                 | _ \<Rightarrow> args);
         inner_switch = (case Environment targetTriple of
                   EABI \<Rightarrow> args @ [''-L=/usr/lib/eabi'']
                 | GNUEABI \<Rightarrow> args @ [''-L=/usr/lib/eabi'']
                 | EABIHF \<Rightarrow> args @ [''-L=/usr/lib/eabihf'']
                 | GNUEABIHF \<Rightarrow> args @ [''-L=/usr/lib/eabihf'']
                 | _ \<Rightarrow> args @ [''-L=/usr/lib/oabi'']);
         args = (case Arch targetTriple of
                   x86 \<Rightarrow> args @ [''-L=/usr/lib/i386'']
                 | arm \<Rightarrow> inner_switch
                 | armeb \<Rightarrow> inner_switch
                 | thumb \<Rightarrow> inner_switch
                 | thumbeb \<Rightarrow> inner_switch
                 | ppc \<Rightarrow> args @ [''-L=/usr/lib/powerpc'']
                 | sparc \<Rightarrow> args @ [''-L=/usr/lib/sparc'']
                 | _ \<Rightarrow> args)
     in args @ [''-L=/usr/lib''])"

text \<open>
  \<^verbatim>\<open>prependTargetCustomization\<close> (lines 155 to 159): only NetBSD has a rule set.
\<close>

definition prependTargetCustomization :: "Triple \<Rightarrow> string list \<Rightarrow> string list" where
  "prependTargetCustomization targetTriple args =
    (if isOSNetBSD targetTriple then prependNetBSDCustomization targetTriple args else args)"

subsection \<open>What the driver calls but does not define\<close>

text \<open>
  The LLVM support library and the operating system are outside the driver's
  source. They are the fields of an environment, which every function that calls
  them takes as its first argument:
  \<^item> \<^verbatim>\<open>sys::findProgramByName\<close> returns the path found (\<open>Inr\<close>) or the message of
    the lookup error (\<open>Inl\<close>);
  \<^item> \<^verbatim>\<open>sys::path::stem\<close> gives the file-name stem of a path;
  \<^item> \<^verbatim>\<open>TargetRegistry::lookupTarget\<close> says whether a target is found for a
    string (the driver tests the returned pointer and drops the error text);
  \<^item> \<^verbatim>\<open>getDefaultTargetTriple\<close> is the host's default triple string;
  \<^item> the constructor \<^verbatim>\<open>llvm::Triple(Str)\<close> parses a string into a triple;
  \<^item> \<^verbatim>\<open>sys::ExecuteAndWait\<close> runs a program on an argument vector and returns
    its result code together with the error message it leaves in \<^verbatim>\<open>ErrMsg\<close>.
  The result code is a C \<^verbatim>\<open>int\<close>; the driver only compares it with zero and
  returns it, so it is modelled as an integer without arithmetic.
\<close>

record env =
  findProgramByName :: "string \<Rightarrow> string + string"
  path_stem :: "string \<Rightarrow> string"
  lookupTarget :: "string \<Rightarrow> bool"
  getDefaultTargetTriple :: string
  Triple_ctor :: "string \<Rightarrow> Triple"
  ExecuteAndWait :: "string \<Rightarrow> string list \<Rightarrow> int \<times> string"

text \<open>The macro \<^verbatim>\<open>LD_LLD_PROGNAME\<close> (lines 31 to 33), at its default.\<close>

definition LD_LLD_PROGNAME :: string where
  "LD_LLD_PROGNAME = ''ld.lld''"

text \<open>
  Modelled from the spec: the option table (\<^verbatim>\<open>Options.inc\<close>, included at lines 41, 46
  and 57) and the parser behind \<^verbatim>\<open>ParseArgs\<close> and \<^verbatim>\<open>hasArg\<close> are not in the driver's
  source. The spec says that \<^verbatim>\<open>-v\<close> and \<^verbatim>\<open>-version\<close> are recognized when present
  anywhere in the caller's arguments, and that everything else passes through.
\<close>

datatype ID = OPT_INVALID | OPT_v | OPT_version

definition hasArg :: "string list \<Rightarrow> ID \<Rightarrow> bool" where
  "hasArg args opt =
    (case opt of
       OPT_INVALID \<Rightarrow> False
     | OPT_v \<Rightarrow> ''-v'' \<in> set args
     | OPT_version \<Rightarrow> ''-version'' \<in> set args)"

subsection \<open>Target triple resolution\<close>

text \<open>
  \<^verbatim>\<open>std::string::rfind(char)\<close>: the index of the last occurrence, \<open>None\<close> for
  \<^verbatim>\<open>npos\<close>. \<^verbatim>\<open>substr(0, n)\<close> with \<open>n\<close> within the string is its first \<open>n\<close> characters.
\<close>

fun rfind :: "string \<Rightarrow> char \<Rightarrow> nat option" where
  "rfind [] c = None"
| "rfind (x # xs) c =
    (case rfind xs c of
       Some i \<Rightarrow> Some (Suc i)
     | None \<Rightarrow> if x = c then Some 0 else None)"

definition substr :: "string \<Rightarrow> nat \<Rightarrow> nat \<Rightarrow> string" where
  "substr s pos n = take n (drop pos s)"

text \<open>
  \<^verbatim>\<open>setTargetTriple\<close> (lines 69 to 85). The source assigns the global
  \<^verbatim>\<open>targetTriple\<close>; the model returns the value assigned. The parameter \<^verbatim>\<open>args\<close> of
  the source is never read and is left out.
\<close>

definition setTargetTriple :: "env \<Rightarrow> string \<Rightarrow> Triple" where
  "setTargetTriple e argv0 =
    (let ProgName = path_stem e argv0 in
     case rfind ProgName (CHR ''-'') of
       Some lastComponent \<Rightarrow>
         (let prefix = substr ProgName 0 lastComponent in
          if lookupTarget e prefix then Triple_ctor e prefix
          else Triple_ctor e (getDefaultTargetTriple e))
     | None \<Rightarrow> Triple_ctor e (getDefaultTargetTriple e))"

subsection \<open>The driver\<close>

text \<open>
  What a run does that can be seen from outside, in the order of the calls: a
  message streamed to \<^verbatim>\<open>WithColor::error()\<close>, text written to \<^verbatim>\<open>outs()\<close>, and the call
  of \<^verbatim>\<open>ExecuteAndWait\<close> with the program and the argument vector.
\<close>

datatype event =
    WithColor_error string
  | outs string
  | Executed string "string list"

record outcome =
  events :: "event list"
  exit_code :: int

text \<open>
  \<^verbatim>\<open>main\<close> (lines 161 to 219). \<open>argv\<close> is the whole vector, \<^verbatim>\<open>argv[0]\<close> included.
  After \<^verbatim>\<open>argc--; argv++\<close> the source's \<^verbatim>\<open>argc\<close> is the number of caller arguments and
  \<^verbatim>\<open>argv[0]\<close> is the first of them: these are \<open>length args\<close> and \<open>args ! 0\<close> below, and
  \<^verbatim>\<open>argc -= 2; argv += 2\<close> is \<open>drop 2\<close>. With an empty vector the source reads
  \<^verbatim>\<open>argsArr[0]\<close> out of range once the program is found; the model returns \<open>None\<close>
  there.
\<close>

definition main :: "env \<Rightarrow> string list \<Rightarrow> outcome option" where
  "main e argv =
    (case findProgramByName e LD_LLD_PROGNAME of
       Inl message \<Rightarrow>
         Some \<lparr>events = [WithColor_error (''unable to find `'' @ LD_LLD_PROGNAME @
                   ''' in PATH: '' @ message @ ''\<newline>'')],
               exit_code = 1\<rparr>
     | Inr Program \<Rightarrow>
         (case argv of
            [] \<Rightarrow> None
          | argv0 # args \<Rightarrow>
              (let printTarget = (hasArg args OPT_v \<or> hasArg args OPT_version);
                   targetTriple = setTargetTriple e argv0;
                   Argv = prependTargetCustomization targetTriple [Program];
                   trim = (length args > 1 \<and> args ! 0 = ''-flavor'');
                   errs = (if trim \<and> length args \<le> 2
                           then [WithColor_error ''missing arg value for '-flavor'\<newline>'']
                           else []);
                   args = (if trim then drop 2 args else args);
                   Argv = Argv @ args;
                   (Result, ErrMsg) = ExecuteAndWait e Program Argv
               in if Result < 0
                  then Some \<lparr>events = errs @ [Executed Program Argv,
                                 WithColor_error (ErrMsg @ ''\<newline>'')],
                             exit_code = 1\<rparr>
                  else Some \<lparr>events = errs @ [Executed Program Argv] @
                                 (if printTarget
                                  then [outs (''Target: '' @ Data targetTriple @ ''\<newline>'')]
                                  else []),
                             exit_code = Result\<rparr>)))"

subsection \<open>Observations and sample environments\<close>

text \<open>
  The calls of the downstream linker in a run, in order: each with the program and
  the argument vector it was given. This is a projection of the event list, used to
  state what was forwarded.
\<close>

fun Executions :: "event list \<Rightarrow> (string \<times> string list) list" where
  "Executions [] = []"
| "Executions (Executed Program Argv # evs) = (Program, Argv) # Executions evs"
| "Executions (WithColor_error m # evs) = Executions evs"
| "Executions (outs s # evs) = Executions evs"

text \<open>
  A sample environment, to run the model on concrete command lines. The linker is
  found under \<^verbatim>\<open>/usr/bin\<close>, invocation names are bare file names without extension
  (so the stem is the name), the host is an x86-64 Linux, and the linker call returns
  the result code \<open>rc\<close>. The sample triple constructor is a table that answers as
  \<^verbatim>\<open>llvm::Triple\<close> does on its rows: the constructor reads the components between
  \<^verbatim>\<open>-\<close> by position, architecture, vendor, operating system, environment, so in
  \<^verbatim>\<open>aarch64-netbsd\<close> the word \<^verbatim>\<open>netbsd\<close> is the vendor and the operating system is
  unknown, while \<^verbatim>\<open>aarch64--netbsd\<close> is NetBSD. The registry looks at the architecture
  alone and knows each row. In the second environment the linker is not on the
  search path.
\<close>

definition sample_findProgramByName :: "string \<Rightarrow> string + string" where
  "sample_findProgramByName name = Inr (''/usr/bin/'' @ name)"

definition sample_not_found :: "string \<Rightarrow> string + string" where
  "sample_not_found name = Inl ''No such file or directory''"

definition sample_stem :: "string \<Rightarrow> string" where
  "sample_stem path = path"

definition sample_lookupTarget :: "string \<Rightarrow> bool" where
  "sample_lookupTarget s =
    (s = ''aarch64-netbsd'' \<or> s = ''aarch64--netbsd'' \<or> s = ''armv7--netbsd-eabihf'' \<or>
     s = ''i386--netbsd'')"

definition sample_Triple :: "string \<Rightarrow> Triple" where
  "sample_Triple s =
    (if s = ''aarch64-netbsd''
     then \<lparr>Data = s, Arch = aarch64, OS = UnknownOS, Environment = UnknownEnvironment\<rparr>
     else if s = ''aarch64--netbsd''
     then \<lparr>Data = s, Arch = aarch64, OS = NetBSD, Environment = UnknownEnvironment\<rparr>
     else if s = ''armv7--netbsd-eabihf''
     then \<lparr>Data = s, Arch = arm, OS = NetBSD, Environment = EABIHF\<rparr>
     else if s = ''i386--netbsd''
     then \<lparr>Data = s, Arch = x86, OS = NetBSD, Environment = UnknownEnvironment\<rparr>
     else \<lparr>Data = s, Arch = x86_64, OS = Linux, Environment = GNU\<rparr>)"

text \<open>
  What the linker process does, and the result code \<^verbatim>\<open>ExecuteAndWait\<close> gives for it
  by its contract in \<^verbatim>\<open>llvm/Support/Program.h\<close>: zero or a positive value is the exit
  status of the program, \<open>-1\<close> is a failure to execute, to which the exit statuses 126
  and 127 of a launched program are mapped as well, and \<open>-2\<close> is a crash or a timeout
  of a program that ran.
\<close>

datatype downstream = exits nat | killed | not_launched

definition sample_Result :: "downstream \<Rightarrow> int" where
  "sample_Result d =
    (case d of
       exits n \<Rightarrow> if n = 126 \<or> n = 127 then - 1 else int n
     | killed \<Rightarrow> - 2
     | not_launched \<Rightarrow> - 1)"

definition sample_ExecuteAndWait :: "int \<Rightarrow> string \<Rightarrow> string list \<Rightarrow> int \<times> string" where
  "sample_ExecuteAndWait rc Program Argv =
    (rc, if rc = - 1 then ''Program could not be executed''
         else if rc < 0 then ''Program terminated by a signal'' else [])"

definition sample_env :: "int \<Rightarrow> env" where
  "sample_env rc =
    \<lparr>findProgramByName = sample_findProgramByName,
     path_stem = sample_stem,
     lookupTarget = sample_lookupTarget,
     getDefaultTargetTriple = ''x86_64-unknown-linux-gnu'',
     Triple_ctor = sample_Triple,
     ExecuteAndWait = sample_ExecuteAndWait rc\<rparr>"

definition sample_env_missing :: env where
  "sample_env_missing = (sample_env 0)\<lparr>findProgramByName := sample_not_found\<rparr>"

lemmas sample_defs =
  sample_env_def sample_env_missing_def sample_findProgramByName_def sample_not_found_def
  sample_stem_def sample_lookupTarget_def sample_Triple_def sample_ExecuteAndWait_def

section \<open>Properties\<close>

subsection \<open>Shared lemmas\<close>

lemma prependNetBSDCustomization_append:
  "prependNetBSDCustomization T args = args @ prependNetBSDCustomization T []"
  by (cases "Arch T"; cases "Environment T"; simp add: prependNetBSDCustomization_def)

lemma prependTargetCustomization_append:
  "prependTargetCustomization T args = args @ prependTargetCustomization T []"
  using prependNetBSDCustomization_append [of T args]
  by (simp add: prependTargetCustomization_def)

lemma rfind_None_iff: "rfind s c = None \<longleftrightarrow> c \<notin> set s"
  by (induction s) (auto split: option.splits)

lemma rfind_last_occurrence:
  "c \<notin> set suffix \<Longrightarrow> rfind (pre @ c # suffix) c = Some (length pre)"
proof (induction pre)
  case Nil
  then have "rfind suffix c = None" by (simp add: rfind_None_iff)
  then show ?case by simp
next
  case (Cons x pre)
  then show ?case by simp
qed

lemma rfind_Some_split:
  "rfind s c = Some i \<Longrightarrow> s = take i s @ c # drop (Suc i) s \<and> c \<notin> set (drop (Suc i) s)"
proof (induction s arbitrary: i)
  case Nil
  then show ?case by simp
next
  case (Cons x xs)
  show ?case
  proof (cases "rfind xs c")
    case None
    with Cons.prems have "x = c" "i = 0" by (auto split: if_splits)
    moreover from None have "c \<notin> set xs" by (simp add: rfind_None_iff)
    ultimately show ?thesis by simp
  next
    case (Some j)
    with Cons.prems have i: "i = Suc j" by simp
    from Cons.IH [OF Some] show ?thesis by (simp add: i)
  qed
qed

lemma trim_flavor_cases:
  "(if 1 < length args \<and> args ! 0 = f then drop 2 args else args) =
   (case args of a # b # rest \<Rightarrow> if a = f then rest else args | _ \<Rightarrow> args)"
  by (cases args; simp split: list.split)

lemma prependNetBSDCustomization_closed_form:
  "prependNetBSDCustomization T [] =
     [''--no-rosegment'', ''--disable-new-dtags'', ''-znognustack''] @
     (if Arch T = aarch64 \<or> Arch T = aarch64_be then [''--image-base=0x200100000''] else []) @
     (if Arch T = x86 then [''-L=/usr/lib/i386'']
      else if Arch T = arm \<or> Arch T = armeb \<or> Arch T = thumb \<or> Arch T = thumbeb
      then (if Environment T = EABI \<or> Environment T = GNUEABI then [''-L=/usr/lib/eabi'']
            else if Environment T = EABIHF \<or> Environment T = GNUEABIHF
            then [''-L=/usr/lib/eabihf'']
            else [''-L=/usr/lib/oabi''])
      else if Arch T = ppc then [''-L=/usr/lib/powerpc'']
      else if Arch T = sparc then [''-L=/usr/lib/sparc'']
      else []) @
     [''-L=/usr/lib'']"
  by (cases "Arch T"; cases "Environment T"; simp add: prependNetBSDCustomization_def)

lemma main_Executions:
  assumes "findProgramByName e LD_LLD_PROGNAME = Inr Program"
  shows "map_option (Executions \<circ> events) (main e (argv0 # args)) =
    Some [(Program, prependTargetCustomization (setTargetTriple e argv0) [Program] @
            (if 1 < length args \<and> args ! 0 = ''-flavor'' then drop 2 args else args))]"
  using assms by (simp add: main_def Let_def split: prod.splits)

lemma sample_no_dash: "\<nexists>prefix suffix. ''ld'' = prefix @ ''-'' @ suffix"
proof
  assume "\<exists>prefix suffix. ''ld'' = prefix @ ''-'' @ suffix"
  then obtain prefix suffix where "''ld'' = prefix @ ''-'' @ suffix" by blast
  then have "set ''ld'' = set (prefix @ ''-'' @ suffix)" by (rule arg_cong)
  then show False by auto
qed

lemma main_found:
  assumes "findProgramByName e LD_LLD_PROGNAME = Inr Program"
  shows "main e (argv0 # args) =
    (let pre = (if 1 < length args \<and> args ! 0 = ''-flavor'' \<and> length args \<le> 2
                then [WithColor_error ''missing arg value for '-flavor'\<newline>''] else []);
         Argv = prependTargetCustomization (setTargetTriple e argv0) [Program] @
                (if 1 < length args \<and> args ! 0 = ''-flavor'' then drop 2 args else args);
         R = ExecuteAndWait e Program Argv
     in Some \<lparr>events = pre @ Executed Program Argv #
                (if fst R < 0 then [WithColor_error (snd R @ ''\<newline>'')]
                 else if ''-v'' \<in> set args \<or> ''-version'' \<in> set args
                 then [outs (''Target: '' @ Data (setTargetTriple e argv0) @ ''\<newline>'')]
                 else []),
              exit_code = (if fst R < 0 then 1 else fst R)\<rparr>)"
  using assms by (simp add: main_def Let_def hasArg_def split: prod.splits)

subsection \<open>Argument assembly\<close>

text \<open>
  Claim C1. Whenever the downstream linker is found, it is called exactly once, and
  the argument vector it gets is the linker's path, then the customization flags of
  the resolved triple, then the caller's arguments in their order, without the first
  two of them when the first is \<^verbatim>\<open>-flavor\<close> and a second one follows it, and unchanged
  otherwise. When the linker is not found, nothing is called.
\<close>

theorem ArgumentVector_layout:
  "(findProgramByName e LD_LLD_PROGNAME = Inr Program \<longrightarrow>
      map_option (Executions \<circ> events) (main e (argv0 # args)) =
        Some [(Program,
               Program # prependTargetCustomization (setTargetTriple e argv0) [] @
               (case args of
                  a # b # rest \<Rightarrow> if a = ''-flavor'' then rest else args
                | _ \<Rightarrow> args))]) \<and>
   (findProgramByName e LD_LLD_PROGNAME = Inl message \<longrightarrow>
      map_option (Executions \<circ> events) (main e argv) = Some [])"
proof (intro conjI impI)
  assume found: "findProgramByName e LD_LLD_PROGNAME = Inr Program"
  have "prependTargetCustomization (setTargetTriple e argv0) [Program] =
        Program # prependTargetCustomization (setTargetTriple e argv0) []"
    using prependTargetCustomization_append [of "setTargetTriple e argv0" "[Program]"] by simp
  then show "map_option (Executions \<circ> events) (main e (argv0 # args)) =
        Some [(Program,
               Program # prependTargetCustomization (setTargetTriple e argv0) [] @
               (case args of
                  a # b # rest \<Rightarrow> if a = ''-flavor'' then rest else args
                | _ \<Rightarrow> args))]"
    using main_Executions [OF found, of argv0 args] trim_flavor_cases [of args "''-flavor''"]
    by simp
next
  assume "findProgramByName e LD_LLD_PROGNAME = Inl message"
  then show "map_option (Executions \<circ> events) (main e argv) = Some []"
    by (simp add: main_def)
qed

theorem ArgumentVector_layout_witness:
  "findProgramByName (sample_env 0) LD_LLD_PROGNAME = Inr ''/usr/bin/ld.lld'' \<and>
   map_option (Executions \<circ> events)
     (main (sample_env 0) [''i386--netbsd-ld'', ''-flavor'', ''gnu'', ''-o'', ''out'', ''a.o'']) =
     Some [(''/usr/bin/ld.lld'',
            [''/usr/bin/ld.lld'', ''--no-rosegment'', ''--disable-new-dtags'', ''-znognustack'',
             ''-L=/usr/lib/i386'', ''-L=/usr/lib'', ''-o'', ''out'', ''a.o''])] \<and>
   findProgramByName sample_env_missing LD_LLD_PROGNAME = Inl ''No such file or directory'' \<and>
   map_option (Executions \<circ> events) (main sample_env_missing [''ld'', ''a.o'']) = Some []"
proof -
  have found: "findProgramByName (sample_env 0) LD_LLD_PROGNAME = Inr ''/usr/bin/ld.lld''"
    by (simp add: sample_defs LD_LLD_PROGNAME_def)
  have missing: "findProgramByName sample_env_missing LD_LLD_PROGNAME =
      Inl ''No such file or directory''"
    by (simp add: sample_defs)
  have T: "setTargetTriple (sample_env 0) ''i386--netbsd-ld'' = sample_Triple ''i386--netbsd''"
    by (simp add: setTargetTriple_def sample_defs substr_def)
  have flags: "prependTargetCustomization (sample_Triple ''i386--netbsd'') [] =
      [''--no-rosegment'', ''--disable-new-dtags'', ''-znognustack'',
       ''-L=/usr/lib/i386'', ''-L=/usr/lib'']"
    by (simp add: prependTargetCustomization_def isOSNetBSD_def
        prependNetBSDCustomization_def sample_Triple_def)
  from ArgumentVector_layout [of "sample_env 0" "''/usr/bin/ld.lld''" "''i386--netbsd-ld''"
      "[''-flavor'', ''gnu'', ''-o'', ''out'', ''a.o'']"] found
  have "map_option (Executions \<circ> events)
     (main (sample_env 0) [''i386--netbsd-ld'', ''-flavor'', ''gnu'', ''-o'', ''out'', ''a.o'']) =
     Some [(''/usr/bin/ld.lld'',
            [''/usr/bin/ld.lld'', ''--no-rosegment'', ''--disable-new-dtags'', ''-znognustack'',
             ''-L=/usr/lib/i386'', ''-L=/usr/lib'', ''-o'', ''out'', ''a.o''])]"
    by (simp add: T flags)
  moreover from ArgumentVector_layout [of sample_env_missing _ _ _
      "''No such file or directory''" "[''ld'', ''a.o'']"] missing
  have "map_option (Executions \<circ> events) (main sample_env_missing [''ld'', ''a.o'']) = Some []"
    by simp
  ultimately show ?thesis using found missing by simp
qed

subsection \<open>Target triple resolution\<close>

text \<open>
  Claim C2. Resolution has two branches and no failure: \<open>setTargetTriple\<close> is a
  total function that returns a triple. When the stem of the invocation path is
  \<open>prefix\<close>, a \<^verbatim>\<open>-\<close> and a suffix without \<^verbatim>\<open>-\<close> (so the prefix is the text before the
  last \<^verbatim>\<open>-\<close>), and the registry finds a target for the prefix, the triple is the
  prefix parsed, whatever the suffix is. In every other case (no \<^verbatim>\<open>-\<close> in the stem,
  or a prefix the registry rejects) the triple is the host's default triple parsed.
\<close>

theorem setTargetTriple_two_branches:
  "(\<forall>prefix suffix.
      path_stem e argv0 = prefix @ ''-'' @ suffix \<and> CHR ''-'' \<notin> set suffix \<and>
      lookupTarget e prefix \<longrightarrow>
      setTargetTriple e argv0 = Triple_ctor e prefix) \<and>
   ((\<nexists>prefix suffix.
      path_stem e argv0 = prefix @ ''-'' @ suffix \<and> CHR ''-'' \<notin> set suffix \<and>
      lookupTarget e prefix) \<longrightarrow>
      setTargetTriple e argv0 = Triple_ctor e (getDefaultTargetTriple e))"
proof (intro conjI allI impI)
  fix prefix suffix
  assume h: "path_stem e argv0 = prefix @ ''-'' @ suffix \<and> CHR ''-'' \<notin> set suffix \<and>
      lookupTarget e prefix"
  then have "rfind (path_stem e argv0) (CHR ''-'') = Some (length prefix)"
    using rfind_last_occurrence [of "CHR ''-''" suffix prefix] by simp
  with h show "setTargetTriple e argv0 = Triple_ctor e prefix"
    by (simp add: setTargetTriple_def substr_def)
next
  assume no: "\<nexists>prefix suffix.
      path_stem e argv0 = prefix @ ''-'' @ suffix \<and> CHR ''-'' \<notin> set suffix \<and>
      lookupTarget e prefix"
  show "setTargetTriple e argv0 = Triple_ctor e (getDefaultTargetTriple e)"
  proof (cases "rfind (path_stem e argv0) (CHR ''-'')")
    case None
    then show ?thesis by (simp add: setTargetTriple_def)
  next
    case (Some i)
    let ?s = "path_stem e argv0"
    from rfind_Some_split [OF Some]
    have "?s = take i ?s @ ''-'' @ drop (Suc i) ?s" and "CHR ''-'' \<notin> set (drop (Suc i) ?s)"
      by simp_all
    with no have "\<not> lookupTarget e (take i ?s)" by blast
    with Some show ?thesis by (simp add: setTargetTriple_def substr_def)
  qed
qed

theorem setTargetTriple_two_branches_witness:
  "path_stem (sample_env 0) ''armv7--netbsd-eabihf-ld'' = ''armv7--netbsd-eabihf'' @ ''-'' @ ''ld'' \<and>
   CHR ''-'' \<notin> set ''ld'' \<and>
   lookupTarget (sample_env 0) ''armv7--netbsd-eabihf'' \<and>
   setTargetTriple (sample_env 0) ''armv7--netbsd-eabihf-ld'' =
     Triple_ctor (sample_env 0) ''armv7--netbsd-eabihf'' \<and>
   (\<nexists>prefix suffix.
      path_stem (sample_env 0) ''ld'' = prefix @ ''-'' @ suffix \<and> CHR ''-'' \<notin> set suffix \<and>
      lookupTarget (sample_env 0) prefix) \<and>
   setTargetTriple (sample_env 0) ''ld'' = Triple_ctor (sample_env 0) ''x86_64-unknown-linux-gnu''"
proof -
  have a: "path_stem (sample_env 0) ''armv7--netbsd-eabihf-ld'' =
      ''armv7--netbsd-eabihf'' @ ''-'' @ ''ld'' \<and>
      CHR ''-'' \<notin> set ''ld'' \<and> lookupTarget (sample_env 0) ''armv7--netbsd-eabihf''"
    by (simp add: sample_defs)
  have b: "\<nexists>prefix suffix.
      path_stem (sample_env 0) ''ld'' = prefix @ ''-'' @ suffix \<and> CHR ''-'' \<notin> set suffix \<and>
      lookupTarget (sample_env 0) prefix"
    using sample_no_dash by (simp add: sample_defs)
  have d: "getDefaultTargetTriple (sample_env 0) = ''x86_64-unknown-linux-gnu''"
    by (simp add: sample_defs)
  note inst = setTargetTriple_two_branches [of "sample_env 0"]
  from inst [of "''armv7--netbsd-eabihf-ld''", THEN conjunct1, rule_format, OF a]
    inst [of "''ld''", THEN conjunct2, rule_format, OF b] a b d
  show ?thesis by simp
qed

subsection \<open>Customization flags\<close>

text \<open>
  Claim C3. For a triple whose operating system is NetBSD, the customization flags
  begin with \<^verbatim>\<open>--no-rosegment\<close>, \<^verbatim>\<open>--disable-new-dtags\<close>, \<^verbatim>\<open>-znognustack\<close> in this order and
  end with \<^verbatim>\<open>-L=/usr/lib\<close>, whatever the architecture and the environment are.
\<close>

theorem NetBSD_flags_begin_and_end:
  assumes "OS T = NetBSD"
  shows "take 3 (prependTargetCustomization T []) =
           [''--no-rosegment'', ''--disable-new-dtags'', ''-znognustack''] \<and>
         last (prependTargetCustomization T []) = ''-L=/usr/lib''"
  using assms
  by (simp add: prependTargetCustomization_def isOSNetBSD_def
      prependNetBSDCustomization_closed_form)

theorem NetBSD_flags_begin_and_end_witness:
  "OS (sample_Triple ''armv7--netbsd-eabihf'') = NetBSD \<and>
   take 3 (prependTargetCustomization (sample_Triple ''armv7--netbsd-eabihf'') []) =
     [''--no-rosegment'', ''--disable-new-dtags'', ''-znognustack''] \<and>
   last (prependTargetCustomization (sample_Triple ''armv7--netbsd-eabihf'') []) = ''-L=/usr/lib''"
proof -
  have os: "OS (sample_Triple ''armv7--netbsd-eabihf'') = NetBSD"
    by (simp add: sample_Triple_def)
  from NetBSD_flags_begin_and_end [OF os] os show ?thesis by simp
qed

text \<open>
  Claim C4. For a triple whose operating system is not NetBSD there are no
  customization flags, and the vector forwarded by \<open>main\<close> is the linker's path
  followed by the caller's arguments with a leading \<^verbatim>\<open>-flavor\<close> pair dropped.
\<close>

theorem no_flags_off_NetBSD:
  "(OS T \<noteq> NetBSD \<longrightarrow> prependTargetCustomization T [] = []) \<and>
   (findProgramByName e LD_LLD_PROGNAME = Inr Program \<and>
    OS (setTargetTriple e argv0) \<noteq> NetBSD \<longrightarrow>
      map_option (Executions \<circ> events) (main e (argv0 # args)) =
        Some [(Program,
               Program # (case args of
                            a # b # rest \<Rightarrow> if a = ''-flavor'' then rest else args
                          | _ \<Rightarrow> args))])"
proof (intro conjI impI)
  assume "OS T \<noteq> NetBSD"
  then show "prependTargetCustomization T [] = []"
    by (simp add: prependTargetCustomization_def isOSNetBSD_def)
next
  assume h: "findProgramByName e LD_LLD_PROGNAME = Inr Program \<and>
    OS (setTargetTriple e argv0) \<noteq> NetBSD"
  then have "prependTargetCustomization (setTargetTriple e argv0) [Program] = [Program]"
    by (simp add: prependTargetCustomization_def isOSNetBSD_def)
  with h show "map_option (Executions \<circ> events) (main e (argv0 # args)) =
        Some [(Program,
               Program # (case args of
                            a # b # rest \<Rightarrow> if a = ''-flavor'' then rest else args
                          | _ \<Rightarrow> args))]"
    using main_Executions [of e Program argv0 args] trim_flavor_cases [of args "''-flavor''"]
    by simp
qed

theorem no_flags_off_NetBSD_witness:
  "OS (sample_Triple ''x86_64-unknown-linux-gnu'') \<noteq> NetBSD \<and>
   prependTargetCustomization (sample_Triple ''x86_64-unknown-linux-gnu'') [] = [] \<and>
   findProgramByName (sample_env 0) LD_LLD_PROGNAME = Inr ''/usr/bin/ld.lld'' \<and>
   OS (setTargetTriple (sample_env 0) ''ld.lld'') \<noteq> NetBSD \<and>
   map_option (Executions \<circ> events) (main (sample_env 0) [''ld.lld'', ''-o'', ''out'', ''a.o'']) =
     Some [(''/usr/bin/ld.lld'', [''/usr/bin/ld.lld'', ''-o'', ''out'', ''a.o''])]"
proof -
  have os: "OS (sample_Triple ''x86_64-unknown-linux-gnu'') \<noteq> NetBSD"
    by (simp add: sample_Triple_def)
  have h: "findProgramByName (sample_env 0) LD_LLD_PROGNAME = Inr ''/usr/bin/ld.lld'' \<and>
      OS (setTargetTriple (sample_env 0) ''ld.lld'') \<noteq> NetBSD"
    by (simp add: sample_defs LD_LLD_PROGNAME_def setTargetTriple_def)
  note inst = no_flags_off_NetBSD [of "sample_Triple ''x86_64-unknown-linux-gnu''" "sample_env 0"
      "''/usr/bin/ld.lld''" "''ld.lld''" "[''-o'', ''out'', ''a.o'']"]
  from inst [THEN conjunct1, rule_format, OF os] inst [THEN conjunct2, rule_format, OF h] os h
  show ?thesis by simp
qed

text \<open>
  Claim C5, as amended. For a triple whose operating system is NetBSD, the flag
  \<^verbatim>\<open>--image-base=0x200100000\<close> is among the customization flags exactly when the
  architecture is \<open>aarch64\<close> or \<open>aarch64_be\<close>. A run without arguments under the name
  \<^verbatim>\<open>aarch64--netbsd-ld\<close>, with the linker found and the prefix \<^verbatim>\<open>aarch64--netbsd\<close> known to
  the registry and parsed as the \<open>aarch64\<close> architecture on NetBSD, calls the linker on
  its path followed by \<^verbatim>\<open>--no-rosegment\<close>, \<^verbatim>\<open>--disable-new-dtags\<close>, \<^verbatim>\<open>-znognustack\<close>,
  \<^verbatim>\<open>--image-base=0x200100000\<close>, \<^verbatim>\<open>-L=/usr/lib\<close>. A run under the name
  \<^verbatim>\<open>aarch64-netbsd-ld\<close>, whose prefix the registry knows but the triple constructor
  does not parse as NetBSD, calls the linker on its path alone.
\<close>

theorem image_base_iff_aarch64:
  "(OS T = NetBSD \<longrightarrow>
      (''--image-base=0x200100000'' \<in> set (prependTargetCustomization T []) \<longleftrightarrow>
       Arch T = aarch64 \<or> Arch T = aarch64_be)) \<and>
   (findProgramByName e LD_LLD_PROGNAME = Inr Program \<and>
    path_stem e argv0 = ''aarch64--netbsd-ld'' \<and>
    lookupTarget e ''aarch64--netbsd'' \<and>
    OS (Triple_ctor e ''aarch64--netbsd'') = NetBSD \<and>
    Arch (Triple_ctor e ''aarch64--netbsd'') = aarch64 \<longrightarrow>
      map_option (Executions \<circ> events) (main e [argv0]) =
        Some [(Program,
               [Program, ''--no-rosegment'', ''--disable-new-dtags'', ''-znognustack'',
                ''--image-base=0x200100000'', ''-L=/usr/lib''])]) \<and>
   (findProgramByName e LD_LLD_PROGNAME = Inr Program \<and>
    path_stem e argv1 = ''aarch64-netbsd-ld'' \<and>
    lookupTarget e ''aarch64-netbsd'' \<and>
    OS (Triple_ctor e ''aarch64-netbsd'') \<noteq> NetBSD \<longrightarrow>
      map_option (Executions \<circ> events) (main e [argv1]) = Some [(Program, [Program])])"
proof (intro conjI impI)
  assume "OS T = NetBSD"
  then show "''--image-base=0x200100000'' \<in> set (prependTargetCustomization T []) \<longleftrightarrow>
       Arch T = aarch64 \<or> Arch T = aarch64_be"
    by (simp add: prependTargetCustomization_def isOSNetBSD_def
        prependNetBSDCustomization_closed_form)
next
  assume h: "findProgramByName e LD_LLD_PROGNAME = Inr Program \<and>
    path_stem e argv0 = ''aarch64--netbsd-ld'' \<and>
    lookupTarget e ''aarch64--netbsd'' \<and>
    OS (Triple_ctor e ''aarch64--netbsd'') = NetBSD \<and>
    Arch (Triple_ctor e ''aarch64--netbsd'') = aarch64"
  then have T: "setTargetTriple e argv0 = Triple_ctor e ''aarch64--netbsd''"
    by (simp add: setTargetTriple_def substr_def)
  from h have "prependTargetCustomization (Triple_ctor e ''aarch64--netbsd'') [] =
      [''--no-rosegment'', ''--disable-new-dtags'', ''-znognustack'',
       ''--image-base=0x200100000'', ''-L=/usr/lib'']"
    by (simp add: prependTargetCustomization_def isOSNetBSD_def
        prependNetBSDCustomization_closed_form)
  then have "prependTargetCustomization (Triple_ctor e ''aarch64--netbsd'') [Program] =
      [Program, ''--no-rosegment'', ''--disable-new-dtags'', ''-znognustack'',
       ''--image-base=0x200100000'', ''-L=/usr/lib'']"
    using prependTargetCustomization_append [of "Triple_ctor e ''aarch64--netbsd''" "[Program]"]
    by simp
  with h T show "map_option (Executions \<circ> events) (main e [argv0]) =
        Some [(Program,
               [Program, ''--no-rosegment'', ''--disable-new-dtags'', ''-znognustack'',
                ''--image-base=0x200100000'', ''-L=/usr/lib''])]"
    using main_Executions [of e Program argv0 "[]"] by simp
next
  assume h: "findProgramByName e LD_LLD_PROGNAME = Inr Program \<and>
    path_stem e argv1 = ''aarch64-netbsd-ld'' \<and>
    lookupTarget e ''aarch64-netbsd'' \<and>
    OS (Triple_ctor e ''aarch64-netbsd'') \<noteq> NetBSD"
  then have T: "setTargetTriple e argv1 = Triple_ctor e ''aarch64-netbsd''"
    by (simp add: setTargetTriple_def substr_def)
  from h have "prependTargetCustomization (Triple_ctor e ''aarch64-netbsd'') [Program] =
      [Program]"
    by (simp add: prependTargetCustomization_def isOSNetBSD_def)
  with h T show "map_option (Executions \<circ> events) (main e [argv1]) =
      Some [(Program, [Program])]"
    using main_Executions [of e Program argv1 "[]"] by simp
qed

theorem image_base_iff_aarch64_witness:
  "OS (sample_Triple ''i386--netbsd'') = NetBSD \<and>
   ''--image-base=0x200100000'' \<notin> set (prependTargetCustomization (sample_Triple ''i386--netbsd'') []) \<and>
   findProgramByName (sample_env 0) LD_LLD_PROGNAME = Inr ''/usr/bin/ld.lld'' \<and>
   path_stem (sample_env 0) ''aarch64--netbsd-ld'' = ''aarch64--netbsd-ld'' \<and>
   lookupTarget (sample_env 0) ''aarch64--netbsd'' \<and>
   OS (Triple_ctor (sample_env 0) ''aarch64--netbsd'') = NetBSD \<and>
   Arch (Triple_ctor (sample_env 0) ''aarch64--netbsd'') = aarch64 \<and>
   map_option (Executions \<circ> events) (main (sample_env 0) [''aarch64--netbsd-ld'']) =
     Some [(''/usr/bin/ld.lld'',
            [''/usr/bin/ld.lld'', ''--no-rosegment'', ''--disable-new-dtags'', ''-znognustack'',
             ''--image-base=0x200100000'', ''-L=/usr/lib''])] \<and>
   path_stem (sample_env 0) ''aarch64-netbsd-ld'' = ''aarch64-netbsd-ld'' \<and>
   lookupTarget (sample_env 0) ''aarch64-netbsd'' \<and>
   OS (Triple_ctor (sample_env 0) ''aarch64-netbsd'') \<noteq> NetBSD \<and>
   map_option (Executions \<circ> events) (main (sample_env 0) [''aarch64-netbsd-ld'']) =
     Some [(''/usr/bin/ld.lld'', [''/usr/bin/ld.lld''])]"
proof -
  have os: "OS (sample_Triple ''i386--netbsd'') = NetBSD"
    and arch: "Arch (sample_Triple ''i386--netbsd'') = x86"
    by (simp_all add: sample_Triple_def)
  have h: "findProgramByName (sample_env 0) LD_LLD_PROGNAME = Inr ''/usr/bin/ld.lld'' \<and>
    path_stem (sample_env 0) ''aarch64--netbsd-ld'' = ''aarch64--netbsd-ld'' \<and>
    lookupTarget (sample_env 0) ''aarch64--netbsd'' \<and>
    OS (Triple_ctor (sample_env 0) ''aarch64--netbsd'') = NetBSD \<and>
    Arch (Triple_ctor (sample_env 0) ''aarch64--netbsd'') = aarch64"
    by (simp add: sample_defs LD_LLD_PROGNAME_def)
  have g: "findProgramByName (sample_env 0) LD_LLD_PROGNAME = Inr ''/usr/bin/ld.lld'' \<and>
    path_stem (sample_env 0) ''aarch64-netbsd-ld'' = ''aarch64-netbsd-ld'' \<and>
    lookupTarget (sample_env 0) ''aarch64-netbsd'' \<and>
    OS (Triple_ctor (sample_env 0) ''aarch64-netbsd'') \<noteq> NetBSD"
    by (simp add: sample_defs LD_LLD_PROGNAME_def)
  note inst = image_base_iff_aarch64 [of "sample_Triple ''i386--netbsd''" "sample_env 0"
      "''/usr/bin/ld.lld''" "''aarch64--netbsd-ld''" "''aarch64-netbsd-ld''"]
  from inst [THEN conjunct1, rule_format, OF os] arch
  have a: "''--image-base=0x200100000'' \<notin>
      set (prependTargetCustomization (sample_Triple ''i386--netbsd'') [])"
    by simp
  note b = inst [THEN conjunct2, THEN conjunct1, rule_format, OF h]
  note c = inst [THEN conjunct2, THEN conjunct2, rule_format, OF g]
  from a b c os h g show ?thesis by simp
qed

text \<open>
  The name of the claim, \<^verbatim>\<open>aarch64-netbsd-ld\<close>: the registry knows the prefix, the
  triple has no operating system, and the linker gets no customization flag.
\<close>

theorem aarch64_netbsd_ld_gets_no_flags:
  "findProgramByName (sample_env 0) LD_LLD_PROGNAME = Inr ''/usr/bin/ld.lld'' \<and>
   lookupTarget (sample_env 0) ''aarch64-netbsd'' \<and>
   setTargetTriple (sample_env 0) ''aarch64-netbsd-ld'' =
     \<lparr>Data = ''aarch64-netbsd'', Arch = aarch64, OS = UnknownOS,
      Environment = UnknownEnvironment\<rparr> \<and>
   main (sample_env 0) [''aarch64-netbsd-ld''] =
     Some \<lparr>events = [Executed ''/usr/bin/ld.lld'' [''/usr/bin/ld.lld'']], exit_code = 0\<rparr>"
  by (simp add: main_def sample_defs LD_LLD_PROGNAME_def hasArg_def setTargetTriple_def
      substr_def prependTargetCustomization_def isOSNetBSD_def)

text \<open>
  Claim C6. For a triple whose operating system is NetBSD, the flags between the
  image-base position and the final \<^verbatim>\<open>-L=/usr/lib\<close> are chosen by the architecture:
  \<^verbatim>\<open>-L=/usr/lib/i386\<close> for \<open>x86\<close>; for \<open>arm\<close>, \<open>armeb\<close>, \<open>thumb\<close> and \<open>thumbeb\<close>,
  \<^verbatim>\<open>-L=/usr/lib/eabi\<close> under \<open>EABI\<close> or \<open>GNUEABI\<close>, \<^verbatim>\<open>-L=/usr/lib/eabihf\<close> under \<open>EABIHF\<close>
  or \<open>GNUEABIHF\<close>, and \<^verbatim>\<open>-L=/usr/lib/oabi\<close> under every other environment;
  \<^verbatim>\<open>-L=/usr/lib/powerpc\<close> for \<open>ppc\<close>; \<^verbatim>\<open>-L=/usr/lib/sparc\<close> for \<open>sparc\<close>; and no flag
  for every other architecture.
\<close>

theorem NetBSD_search_path_by_arch:
  assumes "OS T = NetBSD"
  shows "\<exists>path.
    prependTargetCustomization T [] =
      [''--no-rosegment'', ''--disable-new-dtags'', ''-znognustack''] @
      (if Arch T = aarch64 \<or> Arch T = aarch64_be then [''--image-base=0x200100000''] else []) @
      path @ [''-L=/usr/lib''] \<and>
    (Arch T = x86 \<longrightarrow> path = [''-L=/usr/lib/i386'']) \<and>
    (Arch T \<in> {arm, armeb, thumb, thumbeb} \<longrightarrow>
       (Environment T \<in> {EABI, GNUEABI} \<longrightarrow> path = [''-L=/usr/lib/eabi'']) \<and>
       (Environment T \<in> {EABIHF, GNUEABIHF} \<longrightarrow> path = [''-L=/usr/lib/eabihf'']) \<and>
       (Environment T \<notin> {EABI, GNUEABI, EABIHF, GNUEABIHF} \<longrightarrow>
          path = [''-L=/usr/lib/oabi''])) \<and>
    (Arch T = ppc \<longrightarrow> path = [''-L=/usr/lib/powerpc'']) \<and>
    (Arch T = sparc \<longrightarrow> path = [''-L=/usr/lib/sparc'']) \<and>
    (Arch T \<notin> {x86, arm, armeb, thumb, thumbeb, ppc, sparc} \<longrightarrow> path = [])"
proof -
  let ?path = "if Arch T = x86 then [''-L=/usr/lib/i386'']
      else if Arch T = arm \<or> Arch T = armeb \<or> Arch T = thumb \<or> Arch T = thumbeb
      then (if Environment T = EABI \<or> Environment T = GNUEABI then [''-L=/usr/lib/eabi'']
            else if Environment T = EABIHF \<or> Environment T = GNUEABIHF
            then [''-L=/usr/lib/eabihf'']
            else [''-L=/usr/lib/oabi''])
      else if Arch T = ppc then [''-L=/usr/lib/powerpc'']
      else if Arch T = sparc then [''-L=/usr/lib/sparc'']
      else []"
  have "prependTargetCustomization T [] =
      [''--no-rosegment'', ''--disable-new-dtags'', ''-znognustack''] @
      (if Arch T = aarch64 \<or> Arch T = aarch64_be then [''--image-base=0x200100000''] else []) @
      ?path @ [''-L=/usr/lib'']"
    using assms
    by (simp only: prependTargetCustomization_def isOSNetBSD_def
        prependNetBSDCustomization_closed_form simp_thms if_True)
  moreover have "(Arch T = x86 \<longrightarrow> ?path = [''-L=/usr/lib/i386'']) \<and>
    (Arch T \<in> {arm, armeb, thumb, thumbeb} \<longrightarrow>
       (Environment T \<in> {EABI, GNUEABI} \<longrightarrow> ?path = [''-L=/usr/lib/eabi'']) \<and>
       (Environment T \<in> {EABIHF, GNUEABIHF} \<longrightarrow> ?path = [''-L=/usr/lib/eabihf'']) \<and>
       (Environment T \<notin> {EABI, GNUEABI, EABIHF, GNUEABIHF} \<longrightarrow>
          ?path = [''-L=/usr/lib/oabi''])) \<and>
    (Arch T = ppc \<longrightarrow> ?path = [''-L=/usr/lib/powerpc'']) \<and>
    (Arch T = sparc \<longrightarrow> ?path = [''-L=/usr/lib/sparc'']) \<and>
    (Arch T \<notin> {x86, arm, armeb, thumb, thumbeb, ppc, sparc} \<longrightarrow> ?path = [])"
    by auto
  ultimately show ?thesis by blast
qed

theorem NetBSD_search_path_by_arch_witness:
  "OS (sample_Triple ''armv7--netbsd-eabihf'') = NetBSD \<and>
   prependTargetCustomization (sample_Triple ''armv7--netbsd-eabihf'') [] =
     [''--no-rosegment'', ''--disable-new-dtags'', ''-znognustack'',
      ''-L=/usr/lib/eabihf'', ''-L=/usr/lib'']"
proof -
  have os: "OS (sample_Triple ''armv7--netbsd-eabihf'') = NetBSD"
    and arch: "Arch (sample_Triple ''armv7--netbsd-eabihf'') = arm"
    and environment: "Environment (sample_Triple ''armv7--netbsd-eabihf'') = EABIHF"
    by (simp_all add: sample_Triple_def)
  from NetBSD_search_path_by_arch [OF os] obtain path where
    "prependTargetCustomization (sample_Triple ''armv7--netbsd-eabihf'') [] =
      [''--no-rosegment'', ''--disable-new-dtags'', ''-znognustack''] @ path @ [''-L=/usr/lib'']"
    and "path = [''-L=/usr/lib/eabihf'']"
    by (auto simp: arch environment)
  with os show ?thesis by simp
qed

subsection \<open>Exit code and output\<close>

text \<open>
  Claim C7, as amended. When the linker is not found, the run ends with exit code 1
  after one error message that names the program and the lookup error. When it is
  found, the linker is called. A negative result of \<^verbatim>\<open>ExecuteAndWait\<close>, which stands for
  a launch that failed and also for a linker that ran and crashed, timed out or
  returned 126 or 127, gives exit code 1 and its error message as the last event. A
  result that is not negative is the linker's exit status; it is returned as the exit
  code unchanged, 1 included, with no error message after the call.
\<close>

theorem exit_code_rule:
  "(findProgramByName e LD_LLD_PROGNAME = Inl message \<longrightarrow>
      main e argv =
        Some \<lparr>events = [WithColor_error
                 (''unable to find `ld.lld' in PATH: '' @ message @ ''\<newline>'')],
              exit_code = 1\<rparr>) \<and>
   (findProgramByName e LD_LLD_PROGNAME = Inr Program \<longrightarrow>
      (\<exists>r pre post Argv.
         main e (argv0 # args) = Some r \<and>
         events r = pre @ Executed Program Argv # post \<and>
         (fst (ExecuteAndWait e Program Argv) < 0 \<longrightarrow>
            exit_code r = 1 \<and>
            post = [WithColor_error (snd (ExecuteAndWait e Program Argv) @ ''\<newline>'')]) \<and>
         (0 \<le> fst (ExecuteAndWait e Program Argv) \<longrightarrow>
            exit_code r = fst (ExecuteAndWait e Program Argv) \<and>
            (\<forall>m. WithColor_error m \<notin> set post))))"
proof (intro conjI impI)
  assume "findProgramByName e LD_LLD_PROGNAME = Inl message"
  then show "main e argv =
        Some \<lparr>events = [WithColor_error
                 (''unable to find `ld.lld' in PATH: '' @ message @ ''\<newline>'')],
              exit_code = 1\<rparr>"
    by (simp add: main_def LD_LLD_PROGNAME_def)
next
  assume found: "findProgramByName e LD_LLD_PROGNAME = Inr Program"
  define pre where "pre =
    (if 1 < length args \<and> args ! 0 = ''-flavor'' \<and> length args \<le> 2
     then [WithColor_error ''missing arg value for '-flavor'\<newline>''] else [])"
  define Argv where "Argv =
    prependTargetCustomization (setTargetTriple e argv0) [Program] @
    (if 1 < length args \<and> args ! 0 = ''-flavor'' then drop 2 args else args)"
  define R where "R = ExecuteAndWait e Program Argv"
  define post where "post =
    (if fst R < 0 then [WithColor_error (snd R @ ''\<newline>'')]
     else if ''-v'' \<in> set args \<or> ''-version'' \<in> set args
     then [outs (''Target: '' @ Data (setTargetTriple e argv0) @ ''\<newline>'')]
     else [])"
  define r where "r = \<lparr>events = pre @ Executed Program Argv # post,
    exit_code = (if fst R < 0 then 1 else fst R)\<rparr>"
  have run: "main e (argv0 # args) = Some r"
    using main_found [OF found, of argv0 args]
    by (simp only: Let_def pre_def Argv_def R_def post_def r_def)
  have ev: "events r = pre @ Executed Program Argv # post"
    by (simp add: r_def)
  have neg: "fst (ExecuteAndWait e Program Argv) < 0 \<longrightarrow>
      exit_code r = 1 \<and>
      post = [WithColor_error (snd (ExecuteAndWait e Program Argv) @ ''\<newline>'')]"
    by (simp add: r_def post_def R_def)
  have nonneg: "0 \<le> fst (ExecuteAndWait e Program Argv) \<longrightarrow>
      exit_code r = fst (ExecuteAndWait e Program Argv) \<and>
      (\<forall>m. WithColor_error m \<notin> set post)"
    by (simp add: r_def post_def R_def)
  from run ev neg nonneg
  show "\<exists>r pre post Argv.
         main e (argv0 # args) = Some r \<and>
         events r = pre @ Executed Program Argv # post \<and>
         (fst (ExecuteAndWait e Program Argv) < 0 \<longrightarrow>
            exit_code r = 1 \<and>
            post = [WithColor_error (snd (ExecuteAndWait e Program Argv) @ ''\<newline>'')]) \<and>
         (0 \<le> fst (ExecuteAndWait e Program Argv) \<longrightarrow>
            exit_code r = fst (ExecuteAndWait e Program Argv) \<and>
            (\<forall>m. WithColor_error m \<notin> set post))"
    by blast
qed


theorem exit_code_rule_witness:
  "findProgramByName sample_env_missing LD_LLD_PROGNAME = Inl ''No such file or directory'' \<and>
   main sample_env_missing [''ld'', ''a.o''] =
     Some \<lparr>events = [WithColor_error
              ''unable to find `ld.lld' in PATH: No such file or directory\<newline>''],
           exit_code = 1\<rparr> \<and>
   findProgramByName (sample_env 2) LD_LLD_PROGNAME = Inr ''/usr/bin/ld.lld'' \<and>
   map_option exit_code (main (sample_env 2) [''ld'', ''a.o'']) = Some 2 \<and>
   findProgramByName (sample_env (- 1)) LD_LLD_PROGNAME = Inr ''/usr/bin/ld.lld'' \<and>
   map_option exit_code (main (sample_env (- 1)) [''ld'', ''a.o'']) = Some 1"
proof -
  have missing: "findProgramByName sample_env_missing LD_LLD_PROGNAME =
      Inl ''No such file or directory''"
    by (simp add: sample_defs)
  have found: "findProgramByName (sample_env rc) LD_LLD_PROGNAME = Inr ''/usr/bin/ld.lld''" for rc
    by (simp add: sample_defs LD_LLD_PROGNAME_def)
  have result: "fst (ExecuteAndWait (sample_env rc) Program Argv) = rc" for rc Program Argv
    by (simp add: sample_defs)
  from exit_code_rule [of sample_env_missing "''No such file or directory''" "[''ld'', ''a.o'']",
      THEN conjunct1, rule_format, OF missing]
  have a: "main sample_env_missing [''ld'', ''a.o''] =
     Some \<lparr>events = [WithColor_error
              ''unable to find `ld.lld' in PATH: No such file or directory\<newline>''],
           exit_code = 1\<rparr>"
    by simp
  from exit_code_rule [of "sample_env 2" _ _ "''/usr/bin/ld.lld''" "''ld''" "[''a.o'']",
      THEN conjunct2, rule_format, OF found]
  have b: "map_option exit_code (main (sample_env 2) [''ld'', ''a.o'']) = Some 2"
    by (auto simp: result)
  from exit_code_rule [of "sample_env (- 1)" _ _ "''/usr/bin/ld.lld''" "''ld''" "[''a.o'']",
      THEN conjunct2, rule_format, OF found]
  have c: "map_option exit_code (main (sample_env (- 1)) [''ld'', ''a.o'']) = Some 1"
    by (auto simp: result)
  from missing a found [of 2] b found [of "- 1"] c show ?thesis by simp
qed

text \<open>
  Two runs with exit code 1 where the linker was found and launched: a linker that
  returns 1, with no error reported, and a linker that ran and was killed, for which
  \<^verbatim>\<open>ExecuteAndWait\<close> gives \<open>-2\<close> and the run reports an error. A third run: a linker
  that returns 127 gives the result \<open>-1\<close>, and the exit code is 1, not 127.
\<close>

theorem exit_code_1_without_failure:
  "findProgramByName (sample_env 1) LD_LLD_PROGNAME = Inr ''/usr/bin/ld.lld'' \<and>
   ExecuteAndWait (sample_env 1) ''/usr/bin/ld.lld'' [''/usr/bin/ld.lld'', ''a.o''] = (1, []) \<and>
   main (sample_env 1) [''ld'', ''a.o''] =
     Some \<lparr>events = [Executed ''/usr/bin/ld.lld'' [''/usr/bin/ld.lld'', ''a.o'']],
           exit_code = 1\<rparr> \<and>
   sample_Result killed = - 2 \<and>
   main (sample_env (sample_Result killed)) [''ld'', ''a.o''] =
     Some \<lparr>events = [Executed ''/usr/bin/ld.lld'' [''/usr/bin/ld.lld'', ''a.o''],
                     WithColor_error ''Program terminated by a signal\<newline>''],
           exit_code = 1\<rparr> \<and>
   sample_Result (exits 127) = - 1 \<and>
   main (sample_env (sample_Result (exits 127))) [''ld'', ''a.o''] =
     Some \<lparr>events = [Executed ''/usr/bin/ld.lld'' [''/usr/bin/ld.lld'', ''a.o''],
                     WithColor_error ''Program could not be executed\<newline>''],
           exit_code = 1\<rparr>"
  by (simp add: main_def sample_defs sample_Result_def LD_LLD_PROGNAME_def hasArg_def
      setTargetTriple_def prependTargetCustomization_def isOSNetBSD_def)

text \<open>
  Claim C8, as amended. When \<^verbatim>\<open>-v\<close> or \<^verbatim>\<open>-version\<close> is among the caller's arguments and
  the linker is found, the linker is called and nothing is written to standard output
  before the call. When the call returns a result that is not negative, whatever it
  is, that result is the exit code and the one event after the call is the line
  \<^verbatim>\<open>Target:\<close> with the string of the resolved triple. When the call returns a negative
  result, the exit code is 1 and the one event after the call is the error message:
  no \<^verbatim>\<open>Target:\<close> line is written. When the linker is not found, the exit code is 1,
  nothing is called and no line is written to standard output.
\<close>

theorem Target_line_after_run:
  "(findProgramByName e LD_LLD_PROGNAME = Inr Program \<and>
    (''-v'' \<in> set args \<or> ''-version'' \<in> set args) \<longrightarrow>
      (\<exists>r pre post Argv.
         main e (argv0 # args) = Some r \<and>
         events r = pre @ Executed Program Argv # post \<and>
         (\<forall>s. outs s \<notin> set pre) \<and>
         (0 \<le> fst (ExecuteAndWait e Program Argv) \<longrightarrow>
            exit_code r = fst (ExecuteAndWait e Program Argv) \<and>
            post = [outs (''Target: '' @ Data (setTargetTriple e argv0) @ ''\<newline>'')]) \<and>
         (fst (ExecuteAndWait e Program Argv) < 0 \<longrightarrow>
            exit_code r = 1 \<and>
            post = [WithColor_error (snd (ExecuteAndWait e Program Argv) @ ''\<newline>'')]))) \<and>
   (findProgramByName e LD_LLD_PROGNAME = Inl message \<longrightarrow>
      (\<exists>r. main e argv = Some r \<and> exit_code r = 1 \<and>
           (\<forall>s. outs s \<notin> set (events r)) \<and> Executions (events r) = []))"
proof (intro conjI impI)
  assume h: "findProgramByName e LD_LLD_PROGNAME = Inr Program \<and>
    (''-v'' \<in> set args \<or> ''-version'' \<in> set args)"
  then have found: "findProgramByName e LD_LLD_PROGNAME = Inr Program" by simp
  define pre where "pre =
    (if 1 < length args \<and> args ! 0 = ''-flavor'' \<and> length args \<le> 2
     then [WithColor_error ''missing arg value for '-flavor'\<newline>''] else [])"
  define Argv where "Argv =
    prependTargetCustomization (setTargetTriple e argv0) [Program] @
    (if 1 < length args \<and> args ! 0 = ''-flavor'' then drop 2 args else args)"
  define R where "R = ExecuteAndWait e Program Argv"
  define post where "post =
    (if fst R < 0 then [WithColor_error (snd R @ ''\<newline>'')]
     else if ''-v'' \<in> set args \<or> ''-version'' \<in> set args
     then [outs (''Target: '' @ Data (setTargetTriple e argv0) @ ''\<newline>'')]
     else [])"
  define r where "r = \<lparr>events = pre @ Executed Program Argv # post,
    exit_code = (if fst R < 0 then 1 else fst R)\<rparr>"
  have run: "main e (argv0 # args) = Some r"
    using main_found [OF found, of argv0 args]
    by (simp only: Let_def pre_def Argv_def R_def post_def r_def)
  have ev: "events r = pre @ Executed Program Argv # post"
    by (simp add: r_def)
  have quiet: "\<forall>s. outs s \<notin> set pre"
    by (simp add: pre_def)
  have completed: "0 \<le> fst (ExecuteAndWait e Program Argv) \<longrightarrow>
      exit_code r = fst (ExecuteAndWait e Program Argv) \<and>
      post = [outs (''Target: '' @ Data (setTargetTriple e argv0) @ ''\<newline>'')]"
    using h by (simp add: r_def post_def R_def)
  have failed: "fst (ExecuteAndWait e Program Argv) < 0 \<longrightarrow>
      exit_code r = 1 \<and>
      post = [WithColor_error (snd (ExecuteAndWait e Program Argv) @ ''\<newline>'')]"
    by (simp add: r_def post_def R_def)
  from run ev quiet completed failed
  show "\<exists>r pre post Argv.
         main e (argv0 # args) = Some r \<and>
         events r = pre @ Executed Program Argv # post \<and>
         (\<forall>s. outs s \<notin> set pre) \<and>
         (0 \<le> fst (ExecuteAndWait e Program Argv) \<longrightarrow>
            exit_code r = fst (ExecuteAndWait e Program Argv) \<and>
            post = [outs (''Target: '' @ Data (setTargetTriple e argv0) @ ''\<newline>'')]) \<and>
         (fst (ExecuteAndWait e Program Argv) < 0 \<longrightarrow>
            exit_code r = 1 \<and>
            post = [WithColor_error (snd (ExecuteAndWait e Program Argv) @ ''\<newline>'')])"
    by blast
next
  assume "findProgramByName e LD_LLD_PROGNAME = Inl message"
  then show "\<exists>r. main e argv = Some r \<and> exit_code r = 1 \<and>
           (\<forall>s. outs s \<notin> set (events r)) \<and> Executions (events r) = []"
    by (simp add: main_def)
qed

theorem Target_line_after_run_witness:
  "findProgramByName (sample_env 2) LD_LLD_PROGNAME = Inr ''/usr/bin/ld.lld'' \<and>
   ''-v'' \<in> set [''-o'', ''out'', ''-v''] \<and>
   map_option exit_code (main (sample_env 2) [''ld'', ''-o'', ''out'', ''-v'']) = Some 2 \<and>
   map_option (last \<circ> events) (main (sample_env 2) [''ld'', ''-o'', ''out'', ''-v'']) =
     Some (outs ''Target: x86_64-unknown-linux-gnu\<newline>'') \<and>
   findProgramByName (sample_env (- 2)) LD_LLD_PROGNAME = Inr ''/usr/bin/ld.lld'' \<and>
   map_option exit_code (main (sample_env (- 2)) [''ld'', ''-o'', ''out'', ''-v'']) = Some 1 \<and>
   map_option (last \<circ> events) (main (sample_env (- 2)) [''ld'', ''-o'', ''out'', ''-v'']) =
     Some (WithColor_error ''Program terminated by a signal\<newline>'') \<and>
   findProgramByName sample_env_missing LD_LLD_PROGNAME = Inl ''No such file or directory'' \<and>
   map_option (Executions \<circ> events) (main sample_env_missing [''ld'', ''-version'']) = Some [] \<and>
   map_option exit_code (main sample_env_missing [''ld'', ''-version'']) = Some 1"
proof -
  have h: "findProgramByName (sample_env rc) LD_LLD_PROGNAME = Inr ''/usr/bin/ld.lld'' \<and>
      (''-v'' \<in> set [''-o'', ''out'', ''-v''] \<or> ''-version'' \<in> set [''-o'', ''out'', ''-v''])"
    for rc
    by (simp add: sample_defs LD_LLD_PROGNAME_def)
  have missing: "findProgramByName sample_env_missing LD_LLD_PROGNAME =
      Inl ''No such file or directory''"
    by (simp add: sample_defs)
  have result: "fst (ExecuteAndWait (sample_env rc) Program Argv) = rc" for rc Program Argv
    by (simp add: sample_defs)
  have msg: "snd (ExecuteAndWait (sample_env (- 2)) Program Argv) =
      ''Program terminated by a signal''" for Program Argv
    by (simp add: sample_defs)
  have T: "Data (setTargetTriple (sample_env 2) ''ld'') = ''x86_64-unknown-linux-gnu''"
    by (simp add: setTargetTriple_def sample_defs)
  from Target_line_after_run [of "sample_env 2" "''/usr/bin/ld.lld''" "[''-o'', ''out'', ''-v'']"
      "''ld''", THEN conjunct1, rule_format, OF h]
  have a: "map_option exit_code (main (sample_env 2) [''ld'', ''-o'', ''out'', ''-v'']) = Some 2 \<and>
    map_option (last \<circ> events) (main (sample_env 2) [''ld'', ''-o'', ''out'', ''-v'']) =
     Some (outs ''Target: x86_64-unknown-linux-gnu\<newline>'')"
    by (auto simp: result T)
  from Target_line_after_run [of "sample_env (- 2)" "''/usr/bin/ld.lld''"
      "[''-o'', ''out'', ''-v'']" "''ld''", THEN conjunct1, rule_format, OF h]
  have c: "map_option exit_code (main (sample_env (- 2)) [''ld'', ''-o'', ''out'', ''-v'']) =
      Some 1 \<and>
    map_option (last \<circ> events) (main (sample_env (- 2)) [''ld'', ''-o'', ''out'', ''-v'']) =
     Some (WithColor_error ''Program terminated by a signal\<newline>'')"
    by (auto simp: result msg)
  from Target_line_after_run [of sample_env_missing _ _ _ "''No such file or directory''"
      "[''ld'', ''-version'']", THEN conjunct2, rule_format, OF missing]
  have b: "map_option (Executions \<circ> events) (main sample_env_missing [''ld'', ''-version'']) =
      Some [] \<and>
    map_option exit_code (main sample_env_missing [''ld'', ''-version'']) = Some 1"
    by auto
  from h [of 2] h [of "- 2"] missing a b c show ?thesis by simp
qed

text \<open>
  A linker that ran with \<^verbatim>\<open>-v\<close> and returned 127, and one that ran and was killed:
  the exit code is 1 and the run ends with the error message, without a
  \<^verbatim>\<open>Target:\<close> line.
\<close>

theorem no_Target_line_after_negative_result:
  "findProgramByName (sample_env (sample_Result (exits 127))) LD_LLD_PROGNAME =
     Inr ''/usr/bin/ld.lld'' \<and>
   ''-v'' \<in> set [''-v''] \<and>
   sample_Result (exits 127) = - 1 \<and>
   main (sample_env (sample_Result (exits 127))) [''ld'', ''-v''] =
     Some \<lparr>events = [Executed ''/usr/bin/ld.lld'' [''/usr/bin/ld.lld'', ''-v''],
                     WithColor_error ''Program could not be executed\<newline>''],
           exit_code = 1\<rparr> \<and>
   sample_Result killed = - 2 \<and>
   main (sample_env (sample_Result killed)) [''ld'', ''-v''] =
     Some \<lparr>events = [Executed ''/usr/bin/ld.lld'' [''/usr/bin/ld.lld'', ''-v''],
                     WithColor_error ''Program terminated by a signal\<newline>''],
           exit_code = 1\<rparr>"
  by (simp add: main_def sample_defs sample_Result_def LD_LLD_PROGNAME_def hasArg_def
      setTargetTriple_def prependTargetCustomization_def isOSNetBSD_def)

subsection \<open>The count test around \<^verbatim>\<open>-flavor\<close>\<close>



text \<open>
  Claim C9, at the input where the source departs from it: \<^verbatim>\<open>-flavor\<close> as the only
  caller argument. The test \<^verbatim>\<open>argc > 1\<close> at line 198 is made after \<^verbatim>\<open>argc--\<close>, so it
  asks for two caller arguments; a lone \<^verbatim>\<open>-flavor\<close> does not enter the branch, no error
  is reported, and the token reaches the linker.
\<close>

theorem lone_flavor_is_forwarded_silently:
  "main (sample_env 0) [''ld'', ''-flavor''] =
     Some \<lparr>events = [Executed ''/usr/bin/ld.lld'' [''/usr/bin/ld.lld'', ''-flavor'']],
           exit_code = 0\<rparr>"
  by (simp add: main_def sample_defs LD_LLD_PROGNAME_def hasArg_def setTargetTriple_def
      prependTargetCustomization_def isOSNetBSD_def)

end
